theory Spec2Isabelle
  imports Main "HOL-Library.Sublist"
begin

text \<open>
  A model of the Cosmic Cash local server (serve.js): a request handler that answers a
  handful of API-like paths with cached or literal mock bodies and serves every other
  path as a static file below a root directory, with fallback locations for the assets
  of one game. The earlier version of the handler, which tries a single file path, is
  modelled beside it.
\<close>

section \<open>JavaScript string operations used by serve.js\<close>

text \<open>
  Strings are character lists. \<open>s.startsWith(p)\<close> is the prefix test, \<open>s.includes(sub)\<close>
  is contiguous containment at any position, \<open>s.slice(n)\<close> is \<open>drop n\<close>, and
  \<open>s.split("?")[0]\<close> is the part of \<open>s\<close> before the first question mark.
\<close>

definition startsWith :: "string \<Rightarrow> string \<Rightarrow> bool" where
  "startsWith s p = prefix p s"

fun str_includes :: "string \<Rightarrow> string \<Rightarrow> bool" where
  "str_includes [] sub = (sub = [])"
| "str_includes (c # cs) sub = (prefix sub (c # cs) \<or> str_includes cs sub)"

definition split_first :: "char \<Rightarrow> string \<Rightarrow> string" where
  "split_first sep s = takeWhile (\<lambda>c. c \<noteq> sep) s"

text \<open>
  \<open>a || b\<close> on strings: the left operand is taken unless it is falsy, and a string is
  falsy when it is \<open>null\<close>/\<open>undefined\<close> (here \<open>None\<close>) or empty.
\<close>

definition or_default :: "string option \<Rightarrow> string \<Rightarrow> string" where
  "or_default v d = (case v of None \<Rightarrow> d | Some s \<Rightarrow> if s = [] then d else s)"

text \<open>
  \<open>"..." + Date.now()\<close> appends the decimal rendering of an integer number
  (milliseconds since the epoch are far below the range where JavaScript switches to
  exponent notation).
\<close>

function digits_of :: "int \<Rightarrow> string" where
  "digits_of i =
     (if i < 10 then [''0123456789'' ! nat i]
      else digits_of (i div 10) @ [''0123456789'' ! nat (i mod 10)])"
  by pat_completeness auto
termination
  by (relation "measure nat") auto

declare digits_of.simps [simp del]

definition number_toString :: "int \<Rightarrow> string" where
  "number_toString i = (if i < 0 then CHR ''-'' # digits_of (- i) else digits_of i)"

section \<open>Node's POSIX path module\<close>

text \<open>
  \<open>path.join\<close>, \<open>path.normalize\<close> and \<open>path.extname\<close> belong to the Node.js runtime, not
  to this repository. They are modelled after the documented behaviour of
  \<open>path.posix\<close>: a path is cut at every slash (a left-to-right scan that collects
  the current segment), empty and \<open>.\<close> segments disappear, a
  \<open>..\<close> segment removes the segment before it (at the root of an absolute path it is
  dropped, in a relative path it is kept when nothing is left to remove), and a trailing
  slash survives normalisation.
\<close>

fun split_from :: "string \<Rightarrow> string \<Rightarrow> string list" where
  "split_from cur [] = [rev cur]"
| "split_from cur (c # cs) =
     (if c = CHR ''/'' then rev cur # split_from [] cs else split_from (c # cur) cs)"

definition split_slash :: "string \<Rightarrow> string list" where
  "split_slash path = split_from [] path"

fun join_slash :: "string list \<Rightarrow> string" where
  "join_slash [] = []"
| "join_slash [s] = s"
| "join_slash (s # t # ss) = s @ CHR ''/'' # join_slash (t # ss)"

definition normalize_step :: "bool \<Rightarrow> string list \<Rightarrow> string \<Rightarrow> string list" where
  "normalize_step allowAboveRoot res seg =
     (if seg = [] \<or> seg = ''.'' then res
      else if seg = ''..'' then
        (if res \<noteq> [] \<and> last res \<noteq> ''..'' then butlast res
         else if allowAboveRoot then res @ [''..'']
         else res)
      else res @ [seg])"

definition normalizeString :: "string \<Rightarrow> bool \<Rightarrow> string" where
  "normalizeString path allowAboveRoot =
     join_slash (foldl (normalize_step allowAboveRoot) [] (split_slash path))"

definition path_normalize :: "string \<Rightarrow> string" where
  "path_normalize path =
     (if path = [] then ''.''
      else
        let isAbsolute = (hd path = CHR ''/'');
            trailingSeparator = (last path = CHR ''/'');
            p = normalizeString path (\<not> isAbsolute)
        in if p = [] then (if isAbsolute then ''/'' else if trailingSeparator then ''./'' else ''.'')
           else
             let p = (if trailingSeparator then p @ ''/'' else p)
             in if isAbsolute then CHR ''/'' # p else p)"

definition path_join :: "string list \<Rightarrow> string" where
  "path_join args =
     (let parts = filter (\<lambda>arg. arg \<noteq> []) args
      in if parts = [] then ''.'' else path_normalize (join_slash parts))"

text \<open>
  \<open>path.extname\<close>: the extension of the last path component (trailing slashes ignored),
  from its last dot on; empty when there is no dot, when the only dot is the component's
  first character, or when the component is \<open>..\<close>.
\<close>

definition basename_part :: "string \<Rightarrow> string" where
  "basename_part path =
     (let trimmed = rev (dropWhile (\<lambda>c. c = CHR ''/'') (rev path))
      in rev (takeWhile (\<lambda>c. c \<noteq> CHR ''/'') (rev trimmed)))"

definition path_extname :: "string \<Rightarrow> string" where
  "path_extname path =
     (let base = basename_part path;
          ext = rev (takeWhile (\<lambda>c. c \<noteq> CHR ''.'') (rev base))
      in if CHR ''.'' \<notin> set base then []
         else if length ext + 1 = length base then []
         else if base = ''..'' then []
         else CHR ''.'' # ext)"

section \<open>Data model\<close>

text \<open>The MIME table of serve.js, in the order it is written.\<close>

definition MIME :: "(string \<times> string) list" where
  "MIME =
    [(''.html'', ''text/html''),
     (''.htm'', ''text/html''),
     (''.do'', ''text/html''),
     (''.js'', ''application/javascript''),
     (''.json'', ''application/json''),
     (''.css'', ''text/css''),
     (''.png'', ''image/png''),
     (''.jpg'', ''image/jpeg''),
     (''.jpeg'', ''image/jpeg''),
     (''.gif'', ''image/gif''),
     (''.ico'', ''image/x-icon''),
     (''.svg'', ''image/svg+xml''),
     (''.woff'', ''font/woff''),
     (''.woff2'', ''font/woff2''),
     (''.mp3'', ''audio/mpeg''),
     (''.ogg'', ''audio/ogg''),
     (''.ttf'', ''font/ttf'')]"

text \<open>
  The file system as the server sees it: an absolute path names a regular file with its
  content, a directory, or nothing. \<open>fs.existsSync\<close> asks whether the path names anything,
  \<open>fs.readFileSync\<close> throws unless it names a regular file, and \<open>fs.stat\<close> followed by
  \<open>isFile()\<close> succeeds on regular files only.
\<close>

datatype node = RegularFile string | Directory

type_synonym filesystem = "string \<Rightarrow> node option"

text \<open>The four cached mock bodies; \<open>None\<close> is the initial \<open>null\<close>.\<close>

record cache =
  gameServiceBody :: "string option"
  reloadBalanceBody :: "string option"
  saveSettingsBody :: "string option"
  statsBody :: "string option"

text \<open>
  Of the incoming request the handler reads \<open>req.url\<close> only; the method is carried
  along to state that it plays no role.
\<close>

record request =
  http_method :: string
  url :: "string option"

record response =
  statusCode :: nat
  headers :: "(string \<times> string) list"
  body :: string

text \<open>
  The file-system calls a request issues, in order. A handler returns the response
  together with this trace, so that "nothing was read" is a statement about the model.
\<close>

datatype fs_call = Stat string | CreateReadStream string

section \<open>Mock response cache (loadMockResponses)\<close>

definition DEMO :: "string \<Rightarrow> string" where
  "DEMO ROOT = path_join [ROOT, ''demogamesfree.pragmaticplay.net'', ''gs2c'']"

text \<open>
  One line \<open>if (fs.existsSync(p)) slot = fs.readFileSync(p, "utf8")\<close>: \<open>Inl\<close> is the
  exception \<open>readFileSync\<close> throws on something that exists but is no regular file,
  \<open>Inr None\<close> leaves the slot untouched.
\<close>

definition read_if_exists :: "filesystem \<Rightarrow> string \<Rightarrow> unit + string option" where
  "read_if_exists fs p =
     (case fs p of
        None \<Rightarrow> Inr None
      | Some (RegularFile content) \<Rightarrow> Inr (Some content)
      | Some Directory \<Rightarrow> Inl ())"

text \<open>
  The four reads share one \<open>try\<close> block: the first exception skips the remaining
  reads and keeps the slots filled so far.
\<close>

definition set_slot :: "(string option \<Rightarrow> cache \<Rightarrow> cache) \<Rightarrow> string option \<Rightarrow> cache \<Rightarrow> cache" where
  "set_slot assign v c = (case v of None \<Rightarrow> c | Some b \<Rightarrow> assign (Some b) c)"

definition loadMockResponses :: "string \<Rightarrow> filesystem \<Rightarrow> cache" where
  "loadMockResponses ROOT fs =
     (let gsPath = path_join [DEMO ROOT, ''ge'', ''v4'', ''gameService.html''];
          rbPath = path_join [DEMO ROOT, ''reloadBalance.do''];
          ssPath = path_join [DEMO ROOT, ''saveSettings.do''];
          stPath = path_join [DEMO ROOT, ''stats.do''];
          c0 = \<lparr>gameServiceBody = None, reloadBalanceBody = None,
                saveSettingsBody = None, statsBody = None\<rparr>
      in (case read_if_exists fs gsPath of
            Inl _ \<Rightarrow> c0
          | Inr gs \<Rightarrow>
              (let c1 = set_slot (\<lambda>v c. c\<lparr>gameServiceBody := v\<rparr>) gs c0
               in (case read_if_exists fs rbPath of
                     Inl _ \<Rightarrow> c1
                   | Inr rb \<Rightarrow>
                       (let c2 = set_slot (\<lambda>v c. c\<lparr>reloadBalanceBody := v\<rparr>) rb c1
                        in (case read_if_exists fs ssPath of
                              Inl _ \<Rightarrow> c2
                            | Inr ss \<Rightarrow>
                                (let c3 = set_slot (\<lambda>v c. c\<lparr>saveSettingsBody := v\<rparr>) ss c2
                                 in (case read_if_exists fs stPath of
                                       Inl _ \<Rightarrow> c3
                                     | Inr st \<Rightarrow>
                                         set_slot (\<lambda>v c. c\<lparr>statsBody := v\<rparr>) st c3))))))))"

section \<open>Request handler of serve.js\<close>

text \<open>The literal bodies the handler falls back to.\<close>

definition gameService_fallback :: string where
  "gameService_fallback = ''balance=100000.00&balance_cash=100000.00&na=s''"

definition reloadBalance_fallback :: string where
  "reloadBalance_fallback = ''balance_bonus=0.00&balance=100000.00&balance_cash=100000.00&stime=''"

definition stats_fallback :: string where
  \<open>stats_fallback = ''{"error":0,"description":"OK"}''\<close>

definition customizations_body :: string where
  \<open>customizations_body = ''{"customizations":[]}''\<close>

definition sendMock :: "string \<Rightarrow> string option \<Rightarrow> response" where
  "sendMock b contentType =
     \<lparr>statusCode = 200,
      headers = [(''Content-Type'', or_default contentType ''application/x-www-form-urlencoded''),
                 (''Access-Control-Allow-Origin'', ''*'')],
      body = or_default (Some b) []\<rparr>"

definition pathname_of :: "string option \<Rightarrow> string" where
  "pathname_of u = or_default (Some (split_first (CHR ''?'') (or_default u []))) ''/''"

definition relPath_of :: "string \<Rightarrow> string" where
  "relPath_of pathname =
     (let isRoot = (pathname = ''/'' \<or> pathname = [] \<or> pathname = ''/index.html'')
      in if isRoot then ''index.html''
         else if startsWith pathname ''/'' then drop 1 pathname else pathname)"

definition vsPrefix :: string where
  "vsPrefix = ''demogamesfree.pragmaticplay.net/gs2c/common/v1/games-html5/games/vs/vs40cosmiccash/''"

text \<open>The candidate list: \<open>relCandidates.push(x)\<close> appends \<open>x\<close>.\<close>

definition relCandidates_of :: "string \<Rightarrow> string list" where
  "relCandidates_of relPath =
     (let relCandidates = [relPath]
      in if startsWith relPath vsPrefix then
           let tail = drop (length vsPrefix) relPath;
               relCandidates =
                 (if \<not> startsWith tail ''desktop/''
                  then relCandidates @ [vsPrefix @ ''desktop/'' @ tail]
                  else relCandidates);
               relCandidates =
                 (if \<not> startsWith tail ''desktop/game/''
                  then
                    let tailNoLeadingGame =
                          (if startsWith tail ''game/'' then drop (length ''game/'') tail else tail)
                    in relCandidates @ [vsPrefix @ ''desktop/game/'' @ tailNoLeadingGame]
                  else relCandidates)
           in relCandidates
         else relCandidates)"

definition mime_of :: "string \<Rightarrow> string" where
  "mime_of ext = or_default (map_of MIME ext) ''application/octet-stream''"

definition is_file :: "filesystem \<Rightarrow> string \<Rightarrow> bool" where
  "is_file fs p = (case fs p of Some (RegularFile _) \<Rightarrow> True | _ \<Rightarrow> False)"

definition file_content :: "filesystem \<Rightarrow> string \<Rightarrow> string" where
  "file_content fs p = (case fs p of Some (RegularFile content) \<Rightarrow> content | _ \<Rightarrow> [])"

text \<open>
  \<open>tryCandidate(index)\<close>: the callback of \<open>fs.stat\<close> either streams the file or goes on
  to the next index, so the chain of callbacks is a recursion on the index.
\<close>

function tryCandidate ::
  "string \<Rightarrow> filesystem \<Rightarrow> string \<Rightarrow> string list \<Rightarrow> nat \<Rightarrow> response \<times> fs_call list" where
  "tryCandidate ROOT fs pathname relCandidates index =
     (if index \<ge> length relCandidates then
        (\<lparr>statusCode = 404, headers = [], body = ''Not Found: '' @ pathname\<rparr>, [])
      else
        let candidateRel = relCandidates ! index;
            candidatePath = path_join [ROOT, candidateRel];
            normalized = path_normalize candidatePath
        in if \<not> startsWith normalized ROOT then
             (\<lparr>statusCode = 403, headers = [], body = ''Forbidden''\<rparr>, [])
           else if \<not> is_file fs candidatePath then
             (let (r, calls) = tryCandidate ROOT fs pathname relCandidates (index + 1)
              in (r, Stat candidatePath # calls))
           else
             (let ext = path_extname candidatePath
              in (\<lparr>statusCode = 200, headers = [(''Content-Type'', mime_of ext)],
                   body = file_content fs candidatePath\<rparr>,
                  [Stat candidatePath, CreateReadStream candidatePath])))"
  by pat_completeness auto
termination
  by (relation "measure (\<lambda>(ROOT, fs, pathname, relCandidates, index). length relCandidates - index)") auto

declare tryCandidate.simps [simp del]

definition staticResolver :: "string \<Rightarrow> filesystem \<Rightarrow> string \<Rightarrow> response \<times> fs_call list" where
  "staticResolver ROOT fs pathname =
     tryCandidate ROOT fs pathname (relCandidates_of (relPath_of pathname)) 0"

text \<open>
  The request handler. \<open>ROOT\<close> is \<open>__dirname\<close>, \<open>c\<close> holds the four cached bodies,
  \<open>now\<close> is the value of \<open>Date.now()\<close>. Every \<open>return sendMock(...)\<close> is a branch that
  ends the handler. None of the operations in the \<open>try\<close> block throws on strings, so
  the \<open>catch\<close> branch with its 500 response is never taken and has no counterpart here.
\<close>

definition handler ::
  "string \<Rightarrow> cache \<Rightarrow> filesystem \<Rightarrow> int \<Rightarrow> request \<Rightarrow> response \<times> fs_call list" where
  "handler ROOT c fs now req =
     (let pathname = pathname_of (url req)
      in if str_includes pathname ''gameService'' then
           (sendMock (or_default (gameServiceBody c) gameService_fallback) None, [])
         else if str_includes pathname ''reloadBalance.do'' then
           (sendMock (or_default (reloadBalanceBody c)
              (reloadBalance_fallback @ number_toString now)) None, [])
         else if str_includes pathname ''saveSettings.do'' then
           (sendMock (or_default (saveSettingsBody c) []) (Some ''text/plain''), [])
         else if str_includes pathname ''stats.do'' then
           (sendMock (or_default (statsBody c) stats_fallback) (Some ''application/json''), [])
         else if str_includes pathname ''customizations.info'' then
           (sendMock customizations_body (Some ''application/json''), [])
         else staticResolver ROOT fs pathname)"

section \<open>Request handler of the earlier version (single candidate)\<close>

definition staticResolver_single :: "string \<Rightarrow> filesystem \<Rightarrow> string \<Rightarrow> response \<times> fs_call list" where
  "staticResolver_single ROOT fs pathname =
     (let relPath = relPath_of pathname;
          filePath = path_join [ROOT, relPath]
      in if \<not> startsWith (path_normalize filePath) ROOT then
           (\<lparr>statusCode = 403, headers = [], body = ''Forbidden''\<rparr>, [])
         else if \<not> is_file fs filePath then
           (\<lparr>statusCode = 404, headers = [], body = ''Not Found: '' @ pathname\<rparr>, [Stat filePath])
         else
           (let ext = path_extname filePath
            in (\<lparr>statusCode = 200, headers = [(''Content-Type'', mime_of ext)],
                 body = file_content fs filePath\<rparr>,
                [Stat filePath, CreateReadStream filePath])))"

definition handler_single ::
  "string \<Rightarrow> cache \<Rightarrow> filesystem \<Rightarrow> int \<Rightarrow> request \<Rightarrow> response \<times> fs_call list" where
  "handler_single ROOT c fs now req =
     (let pathname = pathname_of (url req)
      in if str_includes pathname ''gameService'' then
           (sendMock (or_default (gameServiceBody c) gameService_fallback) None, [])
         else if str_includes pathname ''reloadBalance.do'' then
           (sendMock (or_default (reloadBalanceBody c)
              (reloadBalance_fallback @ number_toString now)) None, [])
         else if str_includes pathname ''saveSettings.do'' then
           (sendMock (or_default (saveSettingsBody c) []) (Some ''text/plain''), [])
         else if str_includes pathname ''stats.do'' then
           (sendMock (or_default (statsBody c) stats_fallback) (Some ''application/json''), [])
         else if str_includes pathname ''customizations.info'' then
           (sendMock customizations_body (Some ''application/json''), [])
         else staticResolver_single ROOT fs pathname)"

section \<open>Example inputs\<close>

definition example_root :: string where
  "example_root = ''/srv/app''"

definition empty_cache :: cache where
  "empty_cache = \<lparr>gameServiceBody = None, reloadBalanceBody = None,
                   saveSettingsBody = None, statsBody = None\<rparr>"

definition no_files :: filesystem where
  "no_files = Map.empty"

definition empty_gameService_files :: filesystem where
  "empty_gameService_files =
     [''/srv/app/demogamesfree.pragmaticplay.net/gs2c/ge/v4/gameService.html'' \<mapsto> RegularFile []]"

definition secret_sibling_files :: filesystem where
  "secret_sibling_files = [''/srv/app-secret/key.txt'' \<mapsto> RegularFile ''s3cret'']"

definition site_files :: filesystem where
  "site_files = [''/srv/app/index.html'' \<mapsto> RegularFile ''<html>cosmic</html>'']"

definition asset_files :: filesystem where
  "asset_files = [''/srv/app/'' @ vsPrefix @ ''desktop/game/x.json'' \<mapsto> RegularFile ''{}'']"

definition hosts_files :: filesystem where
  "hosts_files = [''/srv/app/etc/hosts'' \<mapsto> RegularFile ''127.0.0.1 localhost'']"

section \<open>Reading a decimal token back\<close>

text \<open>
  The inverse of the number rendering, to say which integer a timestamp token denotes.
\<close>

definition digit_value :: "char \<Rightarrow> int" where
  "digit_value ch =
     (case map_of (zip ''0123456789'' [0, 1, 2, 3, 4, 5, 6, 7, 8, 9]) ch of
        Some v \<Rightarrow> v
      | None \<Rightarrow> 0)"

definition read_digits :: "string \<Rightarrow> int" where
  "read_digits s = foldl (\<lambda>acc ch. 10 * acc + digit_value ch) 0 s"

definition read_number :: "string \<Rightarrow> int" where
  "read_number s =
     (case s of
        [] \<Rightarrow> 0
      | ch # rest \<Rightarrow> if ch = CHR ''-'' then - read_digits rest else read_digits s)"

section \<open>Priority table of the specification\<close>

text \<open>
  The rule table of the specification's section 4.2, written after its words: five mock
  rules in a fixed order, each with the substring it looks for and the response it
  mandates; a path is classified by the first rule of the list whose substring it
  contains. A cached body counts when it is a non-empty string.
\<close>

datatype mock_rule = GameService | ReloadBalance | SaveSettings | Stats | Customizations

definition rule_priority :: "mock_rule list" where
  "rule_priority = [GameService, ReloadBalance, SaveSettings, Stats, Customizations]"

fun rule_substring :: "mock_rule \<Rightarrow> string" where
  "rule_substring GameService = ''gameService''"
| "rule_substring ReloadBalance = ''reloadBalance.do''"
| "rule_substring SaveSettings = ''saveSettings.do''"
| "rule_substring Stats = ''stats.do''"
| "rule_substring Customizations = ''customizations.info''"

fun rule_content_type :: "mock_rule \<Rightarrow> string" where
  "rule_content_type GameService = ''application/x-www-form-urlencoded''"
| "rule_content_type ReloadBalance = ''application/x-www-form-urlencoded''"
| "rule_content_type SaveSettings = ''text/plain''"
| "rule_content_type Stats = ''application/json''"
| "rule_content_type Customizations = ''application/json''"

definition cached_or :: "string option \<Rightarrow> string \<Rightarrow> string" where
  "cached_or slot fallback =
     (case slot of None \<Rightarrow> fallback | Some b \<Rightarrow> if b = [] then fallback else b)"

fun rule_body :: "cache \<Rightarrow> int \<Rightarrow> mock_rule \<Rightarrow> string" where
  "rule_body c now GameService = cached_or (gameServiceBody c) gameService_fallback"
| "rule_body c now ReloadBalance =
     cached_or (reloadBalanceBody c) (reloadBalance_fallback @ number_toString now)"
| "rule_body c now SaveSettings = cached_or (saveSettingsBody c) []"
| "rule_body c now Stats = cached_or (statsBody c) stats_fallback"
| "rule_body c now Customizations = customizations_body"

definition rule_response :: "cache \<Rightarrow> int \<Rightarrow> mock_rule \<Rightarrow> response" where
  "rule_response c now r =
     \<lparr>statusCode = 200,
      headers = [(''Content-Type'', rule_content_type r), (''Access-Control-Allow-Origin'', ''*'')],
      body = rule_body c now r\<rparr>"

definition classify :: "string \<Rightarrow> mock_rule option" where
  "classify pathname = find (\<lambda>r. str_includes pathname (rule_substring r)) rule_priority"

section \<open>The resolver as an ordered loop\<close>

text \<open>
  The specification's reading of the resolver (sections 4.3 and 9): a loop over the
  candidate list that stops at the first candidate that escapes the root (403) or names
  a regular file (200), and answers 404 when the list is used up.
\<close>

definition escapes_root :: "string \<Rightarrow> string \<Rightarrow> bool" where
  "escapes_root ROOT rel = (\<not> startsWith (path_normalize (path_join [ROOT, rel])) ROOT)"

definition forbidden :: response where
  "forbidden = \<lparr>statusCode = 403, headers = [], body = ''Forbidden''\<rparr>"

definition not_found :: "string \<Rightarrow> response" where
  "not_found pathname = \<lparr>statusCode = 404, headers = [], body = ''Not Found: '' @ pathname\<rparr>"

definition serve_file :: "filesystem \<Rightarrow> string \<Rightarrow> response" where
  "serve_file fs p =
     \<lparr>statusCode = 200, headers = [(''Content-Type'', mime_of (path_extname p))],
      body = file_content fs p\<rparr>"

fun try_in_order :: "string \<Rightarrow> filesystem \<Rightarrow> string \<Rightarrow> string list \<Rightarrow> response \<times> fs_call list" where
  "try_in_order ROOT fs pathname [] = (not_found pathname, [])"
| "try_in_order ROOT fs pathname (rel # rest) =
     (if escapes_root ROOT rel then (forbidden, [])
      else if is_file fs (path_join [ROOT, rel]) then
        (serve_file fs (path_join [ROOT, rel]),
         [Stat (path_join [ROOT, rel]), CreateReadStream (path_join [ROOT, rel])])
      else (fst (try_in_order ROOT fs pathname rest),
            Stat (path_join [ROOT, rel]) # snd (try_in_order ROOT fs pathname rest)))"

section \<open>The root directory\<close>

text \<open>
  \<open>ROOT\<close> is \<open>__dirname\<close>: an absolute directory path in normal form, without a
  trailing slash unless it is the file-system root itself. A plain segment is a file or
  directory name.
\<close>

definition is_root_dir :: "string \<Rightarrow> bool" where
  "is_root_dir ROOT =
     (ROOT \<noteq> [] \<and> hd ROOT = CHR ''/'' \<and> path_normalize ROOT = ROOT
      \<and> (ROOT = ''/'' \<or> last ROOT \<noteq> CHR ''/''))"

definition plain_segment :: "string \<Rightarrow> bool" where
  "plain_segment seg = (seg \<noteq> [] \<and> CHR ''/'' \<notin> set seg \<and> seg \<noteq> ''.'' \<and> seg \<noteq> ''..'')"

section \<open>The candidate list as the claim words it\<close>

text \<open>
  The candidate list in the words of claim C4: the primary path, then the prefix plus
  \<open>desktop/\<close> plus the tail, then the prefix plus \<open>desktop/game/\<close> plus the same tail,
  each fallback only when the tail does not already start with the inserted segment.
\<close>

definition claimed_candidates :: "string \<Rightarrow> string list" where
  "claimed_candidates relPath =
     (let tail = drop (length vsPrefix) relPath
      in [relPath]
         @ (if \<not> startsWith tail ''desktop/'' then [vsPrefix @ ''desktop/'' @ tail] else [])
         @ (if \<not> startsWith tail ''desktop/game/'' then [vsPrefix @ ''desktop/game/'' @ tail] else []))"

section \<open>Containment by path segments\<close>

text \<open>
  What it means for a path to lie inside a directory: the directory's segments are the
  first segments of the path. \<open>/srv/app-secret\<close> is not inside \<open>/srv/app\<close>, although
  the one string begins with the other.
\<close>

definition path_segments :: "string \<Rightarrow> string list" where
  "path_segments p = filter (\<lambda>seg. seg \<noteq> []) (split_slash p)"

definition inside_root :: "string \<Rightarrow> string \<Rightarrow> bool" where
  "inside_root ROOT p = prefix (path_segments ROOT) (path_segments p)"

section \<open>Auxiliary lemmas\<close>

text \<open>\<open>includes\<close> is containment at any position, neither equality nor a prefix test.\<close>

lemma str_includes_iff: "str_includes s sub \<longleftrightarrow> (\<exists>pre suf. s = pre @ sub @ suf)"
proof (induction s)
  case Nil
  then show ?case by auto
next
  case (Cons c cs)
  show ?case
  proof
    assume "str_includes (c # cs) sub"
    then consider "prefix sub (c # cs)" | "str_includes cs sub" by auto
    then show "\<exists>pre suf. c # cs = pre @ sub @ suf"
    proof cases
      case 1
      then obtain suf where "c # cs = sub @ suf" by (auto simp: prefix_def)
      then have "c # cs = [] @ sub @ suf" by simp
      then show ?thesis by blast
    next
      case 2
      with Cons.IH obtain pre suf where "cs = pre @ sub @ suf" by blast
      then have "c # cs = (c # pre) @ sub @ suf" by simp
      then show ?thesis by blast
    qed
  next
    assume "\<exists>pre suf. c # cs = pre @ sub @ suf"
    then obtain pre suf where eq: "c # cs = pre @ sub @ suf" by blast
    show "str_includes (c # cs) sub"
    proof (cases pre)
      case Nil
      with eq have "prefix sub (c # cs)" by (simp add: prefix_def)
      then show ?thesis by simp
    next
      case (Cons d pre')
      with eq have "cs = pre' @ sub @ suf" by simp
      with Cons.IH have "str_includes cs sub" by blast
      then show ?thesis by simp
    qed
  qed
qed

lemma sendMock_eq:
  "sendMock b ct =
     \<lparr>statusCode = 200,
      headers = [(''Content-Type'', case ct of None \<Rightarrow> ''application/x-www-form-urlencoded''
                                    | Some t \<Rightarrow> if t = [] then ''application/x-www-form-urlencoded'' else t),
                 (''Access-Control-Allow-Origin'', ''*'')],
      body = b\<rparr>"
  by (simp add: sendMock_def or_default_def split: option.splits)

lemma split_first_query:
  "sep \<notin> set p \<Longrightarrow> split_first sep (p @ sep # q) = p"
  by (induction p) (auto simp: split_first_def)

lemma split_first_plain:
  "sep \<notin> set p \<Longrightarrow> split_first sep p = p"
  by (induction p) (auto simp: split_first_def)

lemma pathname_of_query:
  "CHR ''?'' \<notin> set p \<Longrightarrow> pathname_of (Some (p @ CHR ''?'' # q)) = pathname_of (Some p)"
  by (simp add: pathname_of_def or_default_def split_first_query split_first_plain)

lemma pathname_of_literal:
  "pathname_of (Some u) =
     (if takeWhile (\<lambda>c. c \<noteq> CHR ''?'') u = [] then ''/'' else takeWhile (\<lambda>c. c \<noteq> CHR ''?'') u)"
  by (simp add: pathname_of_def or_default_def split_first_def)

lemma digit_cases:
  assumes "0 \<le> k" "k < (10::int)"
  shows "k = 0 \<or> k = 1 \<or> k = 2 \<or> k = 3 \<or> k = 4 \<or> k = 5 \<or> k = 6 \<or> k = 7 \<or> k = 8 \<or> k = 9"
  using assms by arith

lemma digit_value_nth:
  assumes "0 \<le> k" "k < (10::int)"
  shows "digit_value (''0123456789'' ! nat k) = k"
  using digit_cases [OF assms] by (auto simp: digit_value_def)

lemma digit_not_minus:
  assumes "0 \<le> k" "k < (10::int)"
  shows "''0123456789'' ! nat k \<noteq> CHR ''-''"
  using digit_cases [OF assms] by auto

lemma read_digits_snoc: "read_digits (s @ [ch]) = 10 * read_digits s + digit_value ch"
  by (simp add: read_digits_def)

lemma read_digits_of: "0 \<le> i \<Longrightarrow> read_digits (digits_of i) = i"
proof (induction i rule: digits_of.induct)
  case (1 i)
  show ?case
  proof (cases "i < 10")
    case True
    with 1 show ?thesis
      by (simp add: digits_of.simps [of i] read_digits_def digit_value_nth)
  next
    case False
    with 1 have ih: "read_digits (digits_of (i div 10)) = i div 10" by simp
    have "digit_value (''0123456789'' ! nat (i mod 10)) = i mod 10"
      by (rule digit_value_nth) simp_all
    with ih False show ?thesis
      by (simp add: digits_of.simps [of i] read_digits_snoc)
  qed
qed

lemma hd_digits_of: "0 \<le> i \<Longrightarrow> \<exists>ch rest. digits_of i = ch # rest \<and> ch \<noteq> CHR ''-''"
proof (induction i rule: digits_of.induct)
  case (1 i)
  show ?case
  proof (cases "i < 10")
    case True
    with 1 show ?thesis
      by (simp add: digits_of.simps [of i] digit_not_minus)
  next
    case False
    with 1 obtain ch rest where "digits_of (i div 10) = ch # rest" "ch \<noteq> CHR ''-''"
      by fastforce
    with False show ?thesis
      by (simp add: digits_of.simps [of i])
  qed
qed

lemma read_number_toString: "read_number (number_toString i) = i"
proof (cases "i < 0")
  case True
  then show ?thesis
    by (simp add: number_toString_def read_number_def read_digits_of)
next
  case False
  then obtain ch rest where "digits_of i = ch # rest" "ch \<noteq> CHR ''-''"
    using hd_digits_of [of i] by auto
  with False show ?thesis
    using read_digits_of [of i] by (simp add: number_toString_def read_number_def)
qed

lemma handler_classify:
  "handler ROOT c fs now req =
     (case classify (pathname_of (url req)) of
        Some r \<Rightarrow> (rule_response c now r, [])
      | None \<Rightarrow> staticResolver ROOT fs (pathname_of (url req)))"
  by (simp add: handler_def Let_def classify_def rule_priority_def rule_response_def
      sendMock_eq cached_or_def or_default_def)

lemma tryCandidate_drop:
  "tryCandidate ROOT fs pathname cands index = try_in_order ROOT fs pathname (drop index cands)"
proof (induction ROOT fs pathname cands index rule: tryCandidate.induct)
  case (1 ROOT fs pathname relCandidates index)
  show ?case
  proof (cases "index \<ge> length relCandidates")
    case True
    then show ?thesis
      by (simp add: tryCandidate.simps [of ROOT fs pathname relCandidates index] not_found_def)
  next
    case False
    then have d: "drop index relCandidates = relCandidates ! index # drop (Suc index) relCandidates"
      by (simp add: Cons_nth_drop_Suc)
    show ?thesis
    proof (cases "escapes_root ROOT (relCandidates ! index)")
      case True
      with False show ?thesis
        by (simp add: tryCandidate.simps [of ROOT fs pathname relCandidates index] d Let_def
            escapes_root_def forbidden_def)
    next
      case esc: False
      show ?thesis
      proof (cases "is_file fs (path_join [ROOT, relCandidates ! index])")
        case True
        with False esc show ?thesis
          by (simp add: tryCandidate.simps [of ROOT fs pathname relCandidates index] d Let_def
              escapes_root_def serve_file_def)
      next
        case nf: False
        from False esc nf
        have ih: "tryCandidate ROOT fs pathname relCandidates (index + 1)
                    = try_in_order ROOT fs pathname (drop (index + 1) relCandidates)"
          using "1.IH" [OF _ refl refl refl] by (simp add: escapes_root_def)
        from False esc nf show ?thesis
          by (simp add: tryCandidate.simps [of ROOT fs pathname relCandidates index] d Let_def
              escapes_root_def ih [simplified] split: prod.splits)
      qed
    qed
  qed
qed

lemma staticResolver_in_order:
  "staticResolver ROOT fs pathname =
     try_in_order ROOT fs pathname (relCandidates_of (relPath_of pathname))"
  by (simp add: staticResolver_def tryCandidate_drop)

lemma relCandidates_single:
  "\<not> startsWith relPath vsPrefix \<Longrightarrow> relCandidates_of relPath = [relPath]"
  by (simp add: relCandidates_of_def)

lemma staticResolver_single_in_order:
  "staticResolver_single ROOT fs pathname =
     try_in_order ROOT fs pathname [relPath_of pathname]"
  by (simp add: staticResolver_single_def Let_def escapes_root_def forbidden_def
      not_found_def serve_file_def)

lemmas path_eval =
  path_join_def path_normalize_def normalizeString_def normalize_step_def split_slash_def
  Let_def

lemmas resolver_eval =
  staticResolver_in_order relCandidates_of_def relPath_of_def startsWith_def vsPrefix_def
  escapes_root_def is_file_def file_content_def serve_file_def not_found_def forbidden_def
  mime_of_def MIME_def path_extname_def basename_part_def or_default_def

lemma relCandidates_head: "\<exists>rest. relCandidates_of rel = rel # rest"
  by (simp add: relCandidates_of_def Let_def)

lemma staticResolver_escape:
  assumes "escapes_root ROOT (relPath_of pathname)"
  shows "staticResolver ROOT fs pathname = (forbidden, [])"
proof -
  obtain rest where "relCandidates_of (relPath_of pathname) = relPath_of pathname # rest"
    using relCandidates_head by blast
  with assms show ?thesis
    by (simp add: staticResolver_in_order)
qed

lemma split_from_append:
  "split_from cur (a @ CHR ''/'' # b) = split_from cur a @ split_from [] b"
  by (induction a arbitrary: cur) auto

lemma split_from_plain:
  "CHR ''/'' \<notin> set s \<Longrightarrow> split_from cur s = [rev cur @ s]"
  by (induction s arbitrary: cur) auto

lemma join_slash_snoc:
  "join_slash (st @ [s]) = (if st = [] then s else join_slash st @ CHR ''/'' # s)"
  by (induction st rule: join_slash.induct) auto

lemma join_slash_empty_iff:
  "list_all (\<lambda>s. s \<noteq> []) st \<Longrightarrow> join_slash st = [] \<longleftrightarrow> st = []"
  by (induction st rule: join_slash.induct) auto

lemma normalize_step_nonempty:
  "list_all (\<lambda>s. s \<noteq> []) res \<Longrightarrow> list_all (\<lambda>s. s \<noteq> []) (normalize_step a res seg)"
  by (cases res rule: rev_cases) (auto simp: normalize_step_def)

lemma foldl_normalize_nonempty:
  "list_all (\<lambda>s. s \<noteq> []) res \<Longrightarrow>
   list_all (\<lambda>s. s \<noteq> []) (foldl (normalize_step a) res segs)"
  by (induction segs arbitrary: res) (auto simp: normalize_step_nonempty)

lemma normalize_append_plain:
  assumes "p \<noteq> []" "hd p = CHR ''/''" "plain_segment seg"
  shows "path_normalize (p @ CHR ''/'' # seg) =
           CHR ''/'' # join_slash (foldl (normalize_step False) [] (split_slash p) @ [seg])"
proof -
  have sp: "split_slash (p @ CHR ''/'' # seg) = split_slash p @ [seg]"
    using assms(3) by (simp add: split_slash_def split_from_append split_from_plain plain_segment_def)
  have st: "normalize_step False res seg = res @ [seg]" for res
    using assms(3) by (simp add: normalize_step_def plain_segment_def)
  have ns: "normalizeString (p @ CHR ''/'' # seg) False =
              join_slash (foldl (normalize_step False) [] (split_slash p) @ [seg])"
    by (simp add: normalizeString_def sp st)
  have ne: "join_slash (foldl (normalize_step False) [] (split_slash p) @ [seg]) \<noteq> []"
    using assms(3) by (simp add: join_slash_snoc plain_segment_def)
  have l: "last (p @ CHR ''/'' # seg) \<noteq> CHR ''/''"
  proof -
    from assms(3) have s: "seg \<noteq> []" and "CHR ''/'' \<notin> set seg"
      by (simp_all add: plain_segment_def)
    then have "last seg \<noteq> CHR ''/''"
      using last_in_set by metis
    with s show ?thesis by simp
  qed
  have h: "hd (p @ CHR ''/'' # seg) = CHR ''/''"
    using assms(1,2) by simp
  show ?thesis
    using ne l h by (simp add: path_normalize_def Let_def ns)
qed

lemma root_dir_shape:
  assumes "is_root_dir ROOT"
  shows "(ROOT = ''/'' \<and> foldl (normalize_step False) [] (split_slash ROOT) = [])
         \<or> (foldl (normalize_step False) [] (split_slash ROOT) \<noteq> []
            \<and> ROOT = CHR ''/'' # join_slash (foldl (normalize_step False) [] (split_slash ROOT)))"
proof (cases "ROOT = ''/''")
  case True
  then show ?thesis
    by (simp add: split_slash_def normalize_step_def)
next
  case False
  let ?st = "foldl (normalize_step False) [] (split_slash ROOT)"
  from assms False have ne: "ROOT \<noteq> []" and h: "hd ROOT = CHR ''/''"
    and n: "path_normalize ROOT = ROOT" and l: "last ROOT \<noteq> CHR ''/''"
    by (auto simp: is_root_dir_def)
  have "join_slash ?st \<noteq> []"
  proof
    assume "join_slash ?st = []"
    with ne h have "path_normalize ROOT = ''/''"
      by (simp add: path_normalize_def Let_def normalizeString_def)
    with n False show False by simp
  qed
  moreover from this ne h l have "path_normalize ROOT = CHR ''/'' # join_slash ?st"
    by (simp add: path_normalize_def Let_def normalizeString_def)
  ultimately show ?thesis
    using n by auto
qed

lemma normalize_under_root:
  assumes "is_root_dir ROOT" "plain_segment seg"
  shows "path_normalize (ROOT @ CHR ''/'' # seg) =
           (if ROOT = ''/'' then CHR ''/'' # seg else ROOT @ CHR ''/'' # seg)"
proof -
  from assms(1) have "ROOT \<noteq> []" "hd ROOT = CHR ''/''"
    by (auto simp: is_root_dir_def)
  then have e: "path_normalize (ROOT @ CHR ''/'' # seg) =
           CHR ''/'' # join_slash (foldl (normalize_step False) [] (split_slash ROOT) @ [seg])"
    using assms(2) by (rule normalize_append_plain)
  from root_dir_shape [OF assms(1)] show ?thesis
  proof
    assume a: "ROOT = ''/'' \<and> foldl (normalize_step False) [] (split_slash ROOT) = []"
    from a have r: "ROOT = ''/''" by (rule conjunct1)
    from a have f: "foldl (normalize_step False) [] (split_slash ROOT) = []" by (rule conjunct2)
    from e have "path_normalize (ROOT @ CHR ''/'' # seg) = CHR ''/'' # join_slash ([] @ [seg])"
      by (simp only: f)
    with r show ?thesis by simp
  next
    assume a: "foldl (normalize_step False) [] (split_slash ROOT) \<noteq> []
            \<and> ROOT = CHR ''/'' # join_slash (foldl (normalize_step False) [] (split_slash ROOT))"
    then have "ROOT \<noteq> ''/''"
      using join_slash_empty_iff [OF foldl_normalize_nonempty [of "[]" False "split_slash ROOT"]]
      by auto
    moreover have "CHR ''/'' # join_slash (foldl (normalize_step False) [] (split_slash ROOT) @ [seg])
             = ROOT @ CHR ''/'' # seg"
      using a by (simp add: join_slash_snoc) 
    ultimately show ?thesis using e by simp
  qed
qed

lemma normalize_slash_plain:
  assumes "plain_segment seg"
  shows "path_normalize (CHR ''/'' # seg) = CHR ''/'' # seg"
proof -
  have "is_root_dir ''/''"
    by (simp add: is_root_dir_def path_eval)
  from normalize_under_root [OF this assms]
  have "path_normalize (''/'' @ CHR ''/'' # seg) = CHR ''/'' # seg" by simp
  moreover have "path_normalize (''/'' @ CHR ''/'' # seg) = path_normalize (CHR ''/'' # seg)"
    using assms
    by (simp add: path_normalize_def normalizeString_def split_slash_def Let_def
        normalize_step_def split_from_plain plain_segment_def)
  ultimately show ?thesis by simp
qed

lemma path_join_under_root:
  assumes "is_root_dir ROOT" "plain_segment seg"
  shows "path_join [ROOT, seg] = (if ROOT = ''/'' then CHR ''/'' # seg else ROOT @ CHR ''/'' # seg)"
proof -
  from assms have "ROOT \<noteq> []" "seg \<noteq> []"
    by (auto simp: is_root_dir_def plain_segment_def)
  then have "path_join [ROOT, seg] = path_normalize (ROOT @ CHR ''/'' # seg)"
    by (simp add: path_join_def)
  with normalize_under_root [OF assms] show ?thesis by simp
qed

lemma under_root_not_escaping:
  assumes "is_root_dir ROOT" "plain_segment seg"
  shows "\<not> escapes_root ROOT seg"
proof (cases "ROOT = ''/''")
  case True
  with assms show ?thesis
    by (simp add: escapes_root_def path_join_under_root normalize_slash_plain startsWith_def)
next
  case False
  with assms show ?thesis
    by (simp add: escapes_root_def path_join_under_root normalize_under_root startsWith_def)
qed

lemma extname_index_html: "path_extname (x @ ''/index.html'') = ''.html''"
  by (simp add: path_extname_def basename_part_def)

lemma try_in_order_find:
  "fst (try_in_order ROOT fs pathname cands) =
     (case find (\<lambda>rel. escapes_root ROOT rel \<or> is_file fs (path_join [ROOT, rel])) cands of
        None \<Rightarrow> not_found pathname
      | Some rel \<Rightarrow>
          if escapes_root ROOT rel then forbidden else serve_file fs (path_join [ROOT, rel]))"
  by (induction cands) auto

text \<open>
  Where the guard does fire: when no mock rule matches and the normalised primary
  candidate does not begin with the characters of the root path, both versions answer
  403 without touching the file system.
\<close>

lemma guard_branch_forbidden:
  assumes "\<not> str_includes (pathname_of (url req)) ''gameService''"
    and "\<not> str_includes (pathname_of (url req)) ''reloadBalance.do''"
    and "\<not> str_includes (pathname_of (url req)) ''saveSettings.do''"
    and "\<not> str_includes (pathname_of (url req)) ''stats.do''"
    and "\<not> str_includes (pathname_of (url req)) ''customizations.info''"
    and "\<not> startsWith (path_normalize (path_join [ROOT, relPath_of (pathname_of (url req))])) ROOT"
  shows "handler ROOT c fs now req =
           (\<lparr>statusCode = 403, headers = [], body = ''Forbidden''\<rparr>, [])
         \<and> handler_single ROOT c fs now req =
           (\<lparr>statusCode = 403, headers = [], body = ''Forbidden''\<rparr>, [])"
proof -
  have "staticResolver ROOT fs (pathname_of (url req)) = (forbidden, [])"
    using assms(6) by (simp add: staticResolver_escape escapes_root_def)
  moreover have "staticResolver_single ROOT fs (pathname_of (url req)) = (forbidden, [])"
    using assms(6) by (simp add: staticResolver_single_in_order escapes_root_def)
  ultimately show ?thesis
    using assms(1-5) by (simp add: handler_def handler_single_def Let_def forbidden_def)
qed

section \<open>The claims\<close>

text \<open>
  C7. A request whose path contains \<open>customizations.info\<close> and none of the four
  substrings tested before it, in particular the request \<open>/customizations.info\<close>, is
  answered with status 200, content type \<open>application/json\<close>, the CORS header and
  exactly the literal body \<open>{"customizations":[]}\<close>, whatever the file system, the
  cached mock bodies, the method and the time are, and without any file-system call.
\<close>

theorem customizations_fixed_literal:
  \<open>(str_includes (pathname_of (url req)) ''customizations.info''
      \<and> \<not> str_includes (pathname_of (url req)) ''gameService''
      \<and> \<not> str_includes (pathname_of (url req)) ''reloadBalance.do''
      \<and> \<not> str_includes (pathname_of (url req)) ''saveSettings.do''
      \<and> \<not> str_includes (pathname_of (url req)) ''stats.do''
     \<longrightarrow> handler ROOT c fs now req =
          (\<lparr>statusCode = 200,
            headers = [(''Content-Type'', ''application/json''),
                       (''Access-Control-Allow-Origin'', ''*'')],
            body = ''{"customizations":[]}''\<rparr>, []))
   \<and> handler ROOT c fs now \<lparr>http_method = m, url = Some ''/customizations.info''\<rparr> =
          (\<lparr>statusCode = 200,
            headers = [(''Content-Type'', ''application/json''),
                       (''Access-Control-Allow-Origin'', ''*'')],
            body = ''{"customizations":[]}''\<rparr>, [])\<close>
  by (simp add: handler_def Let_def sendMock_eq pathname_of_literal customizations_body_def)

theorem customizations_fixed_literal_witness:
  \<open>str_includes (pathname_of (Some ''/gs2c/customizations.info?lang=en'')) ''customizations.info''
   \<and> \<not> str_includes (pathname_of (Some ''/gs2c/customizations.info?lang=en'')) ''gameService''
   \<and> \<not> str_includes (pathname_of (Some ''/gs2c/customizations.info?lang=en'')) ''reloadBalance.do''
   \<and> \<not> str_includes (pathname_of (Some ''/gs2c/customizations.info?lang=en'')) ''saveSettings.do''
   \<and> \<not> str_includes (pathname_of (Some ''/gs2c/customizations.info?lang=en'')) ''stats.do''
   \<and> handler example_root (loadMockResponses example_root site_files) site_files 0
         \<lparr>http_method = ''GET'', url = Some ''/gs2c/customizations.info?lang=en''\<rparr> =
       (\<lparr>statusCode = 200,
         headers = [(''Content-Type'', ''application/json''),
                    (''Access-Control-Allow-Origin'', ''*'')],
         body = ''{"customizations":[]}''\<rparr>, [])
   \<and> length (body (fst (handler example_root empty_cache no_files 0
         \<lparr>http_method = ''POST'', url = Some ''/customizations.info''\<rparr>))) = 21\<close>
  using customizations_fixed_literal
    [of "\<lparr>http_method = ''GET'', url = Some ''/gs2c/customizations.info?lang=en''\<rparr>"
        example_root "loadMockResponses example_root site_files" site_files 0 "''POST''"]
    customizations_fixed_literal
    [of "\<lparr>http_method = ''GET'', url = Some ''/gs2c/customizations.info?lang=en''\<rparr>"
        example_root empty_cache no_files 0 "''POST''"]
  by (simp add: pathname_of_literal)

text \<open>
  C6. With no cached reloadBalance body, the request \<open>/reloadBalance.do?x=1\<close> is
  answered with status 200, content type \<open>application/x-www-form-urlencoded\<close>, the
  CORS header, and the fixed balance string followed by the decimal rendering of the
  current time in milliseconds; reading the token back gives that time. The clock is the
  parameter \<open>now\<close> of the handler.
\<close>

theorem reloadBalance_fallback_body:
  assumes "reloadBalanceBody c = None"
  shows "handler ROOT c fs now \<lparr>http_method = m, url = Some ''/reloadBalance.do?x=1''\<rparr> =
           (\<lparr>statusCode = 200,
             headers = [(''Content-Type'', ''application/x-www-form-urlencoded''),
                        (''Access-Control-Allow-Origin'', ''*'')],
             body = ''balance_bonus=0.00&balance=100000.00&balance_cash=100000.00&stime=''
                      @ number_toString now\<rparr>, [])
         \<and> read_number (number_toString now) = now"
  using assms
  by (simp add: handler_def Let_def sendMock_eq pathname_of_literal or_default_def
      reloadBalance_fallback_def read_number_toString)

theorem reloadBalance_fallback_body_witness:
  "reloadBalanceBody empty_cache = None
   \<and> handler example_root empty_cache no_files 1700000000123
        \<lparr>http_method = ''GET'', url = Some ''/reloadBalance.do?x=1''\<rparr> =
       (\<lparr>statusCode = 200,
         headers = [(''Content-Type'', ''application/x-www-form-urlencoded''),
                    (''Access-Control-Allow-Origin'', ''*'')],
         body = ''balance_bonus=0.00&balance=100000.00&balance_cash=100000.00&stime=1700000000123''\<rparr>, [])"
proof -
  have h: "reloadBalanceBody empty_cache = None" by (simp add: empty_cache_def)
  have n: "number_toString 1700000000123 = ''1700000000123''"
    by (simp add: number_toString_def digits_of.simps)
  show ?thesis
    using h reloadBalance_fallback_body [OF h, of example_root no_files 1700000000123 "''GET''"]
    by (simp add: n)
qed

text \<open>
  C3. The handler's answer is that of the first rule, in the order gameService,
  reloadBalance.do, saveSettings.do, stats.do, customizations.info, whose substring the
  path contains, and the static file resolver's when there is none. A rule is chosen
  exactly when the path contains its substring and the substring of no earlier rule, so
  of two rules that both match the earlier one decides; containment is at any position
  of the path.
\<close>

theorem mock_rules_first_match_wins:
  "handler ROOT c fs now req =
     (case classify (pathname_of (url req)) of
        Some r \<Rightarrow> (rule_response c now r, [])
      | None \<Rightarrow> staticResolver ROOT fs (pathname_of (url req)))
   \<and> (classify p = Some a \<longleftrightarrow>
        str_includes p (rule_substring a)
        \<and> list_all (\<lambda>r. \<not> str_includes p (rule_substring r))
             (takeWhile (\<lambda>r. r \<noteq> a) rule_priority))
   \<and> (classify p = None \<longleftrightarrow> list_all (\<lambda>r. \<not> str_includes p (rule_substring r)) rule_priority)
   \<and> (str_includes p (rule_substring a) \<longleftrightarrow> (\<exists>pre suf. p = pre @ rule_substring a @ suf))"
proof -
  have first: "classify p = Some a \<longleftrightarrow>
        str_includes p (rule_substring a)
        \<and> list_all (\<lambda>r. \<not> str_includes p (rule_substring r))
             (takeWhile (\<lambda>r. r \<noteq> a) rule_priority)"
    by (cases a) (auto simp: classify_def rule_priority_def)
  have none: "classify p = None \<longleftrightarrow>
        list_all (\<lambda>r. \<not> str_includes p (rule_substring r)) rule_priority"
    by (auto simp: classify_def rule_priority_def)
  show ?thesis
    using first none handler_classify [of ROOT c fs now req]
      str_includes_iff [of p "rule_substring a"]
    by blast
qed

theorem mock_rules_first_match_wins_witness:
  "handler example_root empty_cache no_files 0
      \<lparr>http_method = ''POST'', url = Some ''/stats.do/reloadBalance.do?saveSettings.do''\<rparr> =
     (rule_response empty_cache 0 ReloadBalance, [])
   \<and> str_includes ''/stats.do/reloadBalance.do'' (rule_substring ReloadBalance)
   \<and> str_includes ''/stats.do/reloadBalance.do'' (rule_substring Stats)
   \<and> classify ''/stats.do/reloadBalance.do'' = Some ReloadBalance
   \<and> classify ''/index.html'' = None"
  using mock_rules_first_match_wins
    [of example_root empty_cache no_files 0
        "\<lparr>http_method = ''POST'', url = Some ''/stats.do/reloadBalance.do?saveSettings.do''\<rparr>"
        "''/stats.do/reloadBalance.do''" ReloadBalance]
    mock_rules_first_match_wins
    [of example_root empty_cache no_files 0
        "\<lparr>http_method = ''GET'', url = Some ''/index.html''\<rparr>"
        "''/index.html''" Stats]
  by (simp add: pathname_of_literal rule_priority_def)

text \<open>
  C2, as stated, fails when the cached file is empty: the slot is loaded with the empty
  string, which \<open>||\<close> treats like \<open>null\<close>, and the fallback is sent.
\<close>

theorem gameService_cached_empty_counterexample:
  "gameServiceBody (loadMockResponses example_root empty_gameService_files) = Some []
   \<and> body (fst (handler example_root (loadMockResponses example_root empty_gameService_files)
                   empty_gameService_files 0
                   \<lparr>http_method = ''GET'', url = Some ''/gameService''\<rparr>))
       = ''balance=100000.00&balance_cash=100000.00&na=s''"
proof -
  have p: "path_join [DEMO example_root, ''ge'', ''v4'', ''gameService.html'']
             = ''/srv/app/demogamesfree.pragmaticplay.net/gs2c/ge/v4/gameService.html''"
    by (simp add: DEMO_def example_root_def path_join_def path_normalize_def
        normalizeString_def normalize_step_def Let_def split_slash_def)
  have q: "path_join [DEMO example_root, ''reloadBalance.do'']
             = ''/srv/app/demogamesfree.pragmaticplay.net/gs2c/reloadBalance.do''"
      "path_join [DEMO example_root, ''saveSettings.do'']
             = ''/srv/app/demogamesfree.pragmaticplay.net/gs2c/saveSettings.do''"
      "path_join [DEMO example_root, ''stats.do'']
             = ''/srv/app/demogamesfree.pragmaticplay.net/gs2c/stats.do''"
    by (simp_all add: DEMO_def example_root_def path_join_def path_normalize_def
        normalizeString_def normalize_step_def Let_def split_slash_def)
  have l: "loadMockResponses example_root empty_gameService_files
             = empty_cache\<lparr>gameServiceBody := Some []\<rparr>"
    by (simp add: loadMockResponses_def p q Let_def read_if_exists_def set_slot_def
        empty_gameService_files_def empty_cache_def)
  show ?thesis
    by (simp add: l handler_def Let_def sendMock_eq pathname_of_literal or_default_def
        gameService_fallback_def empty_cache_def)
qed

text \<open>
  C2, amended. A request whose path, query string discarded, contains \<open>gameService\<close>
  is answered with status 200, content type \<open>application/x-www-form-urlencoded\<close>, the
  CORS header, and the cached gameService body when one was loaded and is not empty,
  else the fixed fallback; method, query string, file system and time play no role.
\<close>

theorem gameService_mock:
  assumes "url req = Some u"
    and "str_includes (takeWhile (\<lambda>ch. ch \<noteq> CHR ''?'') u) ''gameService''"
  shows "handler ROOT c fs now req =
           (\<lparr>statusCode = 200,
             headers = [(''Content-Type'', ''application/x-www-form-urlencoded''),
                        (''Access-Control-Allow-Origin'', ''*'')],
             body = (case gameServiceBody c of
                       None \<Rightarrow> ''balance=100000.00&balance_cash=100000.00&na=s''
                     | Some b \<Rightarrow>
                         if b = [] then ''balance=100000.00&balance_cash=100000.00&na=s'' else b)\<rparr>,
            [])"
proof -
  from assms(2) have "takeWhile (\<lambda>ch. ch \<noteq> CHR ''?'') u \<noteq> []" by auto
  with assms show ?thesis
    by (simp add: handler_def Let_def sendMock_eq pathname_of_literal or_default_def
        gameService_fallback_def)
qed

theorem gameService_mock_witness:
  "str_includes (takeWhile (\<lambda>ch. ch \<noteq> CHR ''?'') ''/gs2c/ge/v4/gameService?action=doSpin'') ''gameService''
   \<and> handler example_root (empty_cache\<lparr>gameServiceBody := Some ''balance=5.00''\<rparr>) no_files 0
         \<lparr>http_method = ''POST'', url = Some ''/gs2c/ge/v4/gameService?action=doSpin''\<rparr> =
       (\<lparr>statusCode = 200,
         headers = [(''Content-Type'', ''application/x-www-form-urlencoded''),
                    (''Access-Control-Allow-Origin'', ''*'')],
         body = ''balance=5.00''\<rparr>, [])"
proof -
  have h: "str_includes (takeWhile (\<lambda>ch. ch \<noteq> CHR ''?'') ''/gs2c/ge/v4/gameService?action=doSpin'') ''gameService''"
    by simp
  have u: "url \<lparr>http_method = ''POST'', url = Some ''/gs2c/ge/v4/gameService?action=doSpin''\<rparr>
             = Some ''/gs2c/ge/v4/gameService?action=doSpin''"
    by simp
  show ?thesis
    using h gameService_mock [OF u h, of example_root
        "empty_cache\<lparr>gameServiceBody := Some ''balance=5.00''\<rparr>" no_files 0]
    by (simp add: empty_cache_def)
qed

text \<open>
  C5, as stated, fails: the request \<open>/page.html?ref=stats.do\<close> has the path
  \<open>/page.html\<close>, matches no mock rule and goes to the static file resolver (here, with
  no such file, a 404 naming the path).
\<close>

theorem stats_in_query_counterexample:
  "handler example_root empty_cache no_files 0
      \<lparr>http_method = ''GET'', url = Some ''/page.html?ref=stats.do''\<rparr> =
     (\<lparr>statusCode = 404, headers = [], body = ''Not Found: /page.html''\<rparr>,
      [Stat ''/srv/app/page.html''])
   \<and> handler example_root empty_cache no_files 0
      \<lparr>http_method = ''GET'', url = Some ''/page.html?ref=stats.do''\<rparr> \<noteq>
     (rule_response empty_cache 0 Stats, [])"
  by (simp add: handler_def pathname_of_literal resolver_eval path_eval example_root_def
      no_files_def rule_response_def)

text \<open>
  C5, amended. Mock classification is applied to the path component only, the part of
  the request target before the first question mark: a request receives the stats mock
  response when that part contains \<open>stats.do\<close> and none of the three substrings tested
  before it, and a target is handled exactly as the same target without its query
  string, so \<open>stats.do\<close> in a query parameter alone matches nothing.
\<close>

theorem stats_rule_reads_path_only:
  "(str_includes (pathname_of (url req)) ''stats.do''
      \<and> \<not> str_includes (pathname_of (url req)) ''gameService''
      \<and> \<not> str_includes (pathname_of (url req)) ''reloadBalance.do''
      \<and> \<not> str_includes (pathname_of (url req)) ''saveSettings.do''
     \<longrightarrow> handler ROOT c fs now req =
          (\<lparr>statusCode = 200,
            headers = [(''Content-Type'', ''application/json''),
                       (''Access-Control-Allow-Origin'', ''*'')],
            body = (case statsBody c of
                      None \<Rightarrow> stats_fallback
                    | Some b \<Rightarrow> if b = [] then stats_fallback else b)\<rparr>, []))
   \<and> (CHR ''?'' \<notin> set p
     \<longrightarrow> handler ROOT c fs now \<lparr>http_method = m, url = Some (p @ CHR ''?'' # q)\<rparr> =
          handler ROOT c fs now \<lparr>http_method = m, url = Some p\<rparr>)"
  by (simp add: handler_def Let_def sendMock_eq or_default_def pathname_of_query
      split: option.splits)

theorem stats_rule_reads_path_only_witness:
  "str_includes (pathname_of (Some ''/gs2c/stats.do?ref=x'')) ''stats.do''
   \<and> \<not> str_includes (pathname_of (Some ''/gs2c/stats.do?ref=x'')) ''gameService''
   \<and> \<not> str_includes (pathname_of (Some ''/gs2c/stats.do?ref=x'')) ''reloadBalance.do''
   \<and> \<not> str_includes (pathname_of (Some ''/gs2c/stats.do?ref=x'')) ''saveSettings.do''
   \<and> CHR ''?'' \<notin> set ''/page.html''
   \<and> handler example_root empty_cache no_files 0
        \<lparr>http_method = ''GET'', url = Some ''/gs2c/stats.do?ref=x''\<rparr> =
       (\<lparr>statusCode = 200,
         headers = [(''Content-Type'', ''application/json''),
                    (''Access-Control-Allow-Origin'', ''*'')],
         body = stats_fallback\<rparr>, [])
   \<and> handler example_root empty_cache no_files 0
        \<lparr>http_method = ''GET'', url = Some ''/page.html?ref=stats.do''\<rparr> =
       handler example_root empty_cache no_files 0
        \<lparr>http_method = ''GET'', url = Some ''/page.html''\<rparr>"
  using stats_rule_reads_path_only
    [of "\<lparr>http_method = ''GET'', url = Some ''/gs2c/stats.do?ref=x''\<rparr>"
        example_root empty_cache no_files 0 "''/page.html''" "''GET''" "''ref=stats.do''"]
  by (simp add: pathname_of_literal empty_cache_def)

text \<open>
  C10. For a request whose path matches no mock rule and whose relative path does not
  begin with the vs40cosmiccash asset prefix, the handler of serve.js and the handler of
  the single-candidate version give the same response (status, headers, body) and issue
  the same file-system calls, for every root, file system, cache and time.
\<close>

theorem handlers_agree_off_asset_prefix:
  assumes "\<not> str_includes (pathname_of (url req)) ''gameService''"
    and "\<not> str_includes (pathname_of (url req)) ''reloadBalance.do''"
    and "\<not> str_includes (pathname_of (url req)) ''saveSettings.do''"
    and "\<not> str_includes (pathname_of (url req)) ''stats.do''"
    and "\<not> str_includes (pathname_of (url req)) ''customizations.info''"
    and "\<not> startsWith (relPath_of (pathname_of (url req))) vsPrefix"
  shows "handler ROOT c fs now req = handler_single ROOT c fs now req"
proof -
  have "staticResolver ROOT fs (pathname_of (url req))
          = staticResolver_single ROOT fs (pathname_of (url req))"
    using assms(6)
    by (simp add: staticResolver_in_order staticResolver_single_in_order relCandidates_single)
  with assms(1-5) show ?thesis
    by (simp add: handler_def handler_single_def Let_def)
qed

theorem handlers_agree_off_asset_prefix_witness:
  "\<not> str_includes (pathname_of (Some ''/img/logo.png?v=3'')) ''gameService''
   \<and> \<not> str_includes (pathname_of (Some ''/img/logo.png?v=3'')) ''reloadBalance.do''
   \<and> \<not> str_includes (pathname_of (Some ''/img/logo.png?v=3'')) ''saveSettings.do''
   \<and> \<not> str_includes (pathname_of (Some ''/img/logo.png?v=3'')) ''stats.do''
   \<and> \<not> str_includes (pathname_of (Some ''/img/logo.png?v=3'')) ''customizations.info''
   \<and> \<not> startsWith (relPath_of (pathname_of (Some ''/img/logo.png?v=3''))) vsPrefix
   \<and> handler example_root empty_cache no_files 0
         \<lparr>http_method = ''GET'', url = Some ''/img/logo.png?v=3''\<rparr> =
       handler_single example_root empty_cache no_files 0
         \<lparr>http_method = ''GET'', url = Some ''/img/logo.png?v=3''\<rparr>"
proof -
  have p: "pathname_of (Some ''/img/logo.png?v=3'') = ''/img/logo.png''"
    by (simp add: pathname_of_literal)
  have h1: "\<not> str_includes (pathname_of (url \<lparr>http_method = ''GET'', url = Some ''/img/logo.png?v=3''\<rparr>)) ''gameService''"
    and h2: "\<not> str_includes (pathname_of (url \<lparr>http_method = ''GET'', url = Some ''/img/logo.png?v=3''\<rparr>)) ''reloadBalance.do''"
    and h3: "\<not> str_includes (pathname_of (url \<lparr>http_method = ''GET'', url = Some ''/img/logo.png?v=3''\<rparr>)) ''saveSettings.do''"
    and h4: "\<not> str_includes (pathname_of (url \<lparr>http_method = ''GET'', url = Some ''/img/logo.png?v=3''\<rparr>)) ''stats.do''"
    and h5: "\<not> str_includes (pathname_of (url \<lparr>http_method = ''GET'', url = Some ''/img/logo.png?v=3''\<rparr>)) ''customizations.info''"
    by (simp_all add: p)
  have h6: "\<not> startsWith (relPath_of (pathname_of (url \<lparr>http_method = ''GET'', url = Some ''/img/logo.png?v=3''\<rparr>))) vsPrefix"
    by (simp add: p relPath_of_def startsWith_def vsPrefix_def)
  show ?thesis
    using h1 h2 h3 h4 h5 h6
      handlers_agree_off_asset_prefix [OF h1 h2 h3 h4 h5 h6, of example_root empty_cache no_files 0]
    by simp
qed

text \<open>
  C9. The response and the file-system calls are a function of the request target, the
  cache slots, the file system and the clock, and the clock matters in one case only.
  Two requests with the same target (whatever their methods), handled against the same
  cache and file system at two times, get identical outcomes, unless the path falls to
  the reloadBalance rule with no (non-empty) cached body: then both get status 200 and
  the same two headers, and each body is the fixed string followed by its own time.
\<close>

theorem handler_repeatable:
  assumes "url r1 = url r2"
  shows "((\<not> str_includes (pathname_of (url r1)) ''gameService''
            \<and> str_includes (pathname_of (url r1)) ''reloadBalance.do''
            \<and> (reloadBalanceBody c = None \<or> reloadBalanceBody c = Some []))
          \<longrightarrow> handler ROOT c fs t1 r1 =
                (\<lparr>statusCode = 200,
                  headers = [(''Content-Type'', ''application/x-www-form-urlencoded''),
                             (''Access-Control-Allow-Origin'', ''*'')],
                  body = reloadBalance_fallback @ number_toString t1\<rparr>, [])
              \<and> handler ROOT c fs t2 r2 =
                (\<lparr>statusCode = 200,
                  headers = [(''Content-Type'', ''application/x-www-form-urlencoded''),
                             (''Access-Control-Allow-Origin'', ''*'')],
                  body = reloadBalance_fallback @ number_toString t2\<rparr>, []))
       \<and> (\<not> (\<not> str_includes (pathname_of (url r1)) ''gameService''
               \<and> str_includes (pathname_of (url r1)) ''reloadBalance.do''
               \<and> (reloadBalanceBody c = None \<or> reloadBalanceBody c = Some []))
          \<longrightarrow> handler ROOT c fs t1 r1 = handler ROOT c fs t2 r2)"
proof -
  have clock: "or_default (reloadBalanceBody c) (reloadBalance_fallback @ number_toString t)
                 = (if reloadBalanceBody c = None \<or> reloadBalanceBody c = Some []
                    then reloadBalance_fallback @ number_toString t
                    else the (reloadBalanceBody c))" for t
    by (auto simp: or_default_def reloadBalance_fallback_def split: option.splits)
  show ?thesis
    unfolding handler_def Let_def assms clock
    by (simp add: sendMock_eq)
qed

theorem handler_repeatable_witness:
  "url \<lparr>http_method = ''GET'', url = Some ''/index.html''\<rparr>
     = url \<lparr>http_method = ''HEAD'', url = Some ''/index.html''\<rparr>
   \<and> handler example_root empty_cache site_files 1700000000123
         \<lparr>http_method = ''GET'', url = Some ''/index.html''\<rparr>
     = handler example_root empty_cache site_files 1700000004567
         \<lparr>http_method = ''HEAD'', url = Some ''/index.html''\<rparr>
   \<and> handler example_root empty_cache site_files 1700000000123
         \<lparr>http_method = ''GET'', url = Some ''/reloadBalance.do''\<rparr>
     = (\<lparr>statusCode = 200,
         headers = [(''Content-Type'', ''application/x-www-form-urlencoded''),
                    (''Access-Control-Allow-Origin'', ''*'')],
         body = reloadBalance_fallback @ ''1700000000123''\<rparr>, [])
   \<and> handler example_root empty_cache site_files 1700000004567
         \<lparr>http_method = ''GET'', url = Some ''/reloadBalance.do''\<rparr>
     = (\<lparr>statusCode = 200,
         headers = [(''Content-Type'', ''application/x-www-form-urlencoded''),
                    (''Access-Control-Allow-Origin'', ''*'')],
         body = reloadBalance_fallback @ ''1700000004567''\<rparr>, [])"
proof -
  have u: "url \<lparr>http_method = ''GET'', url = Some ''/index.html''\<rparr>
             = url \<lparr>http_method = ''HEAD'', url = Some ''/index.html''\<rparr>"
    by simp
  have n: "number_toString 1700000000123 = ''1700000000123''"
      "number_toString 1700000004567 = ''1700000004567''"
    by (simp_all add: number_toString_def digits_of.simps)
  show ?thesis
    using handler_repeatable [OF u, of empty_cache example_root site_files 1700000000123 1700000004567]
      handler_repeatable [OF refl, of "\<lparr>http_method = ''GET'', url = Some ''/reloadBalance.do''\<rparr>"
         empty_cache example_root site_files 1700000000123 1700000004567]
    by (simp add: pathname_of_literal empty_cache_def n)
qed

text \<open>
  C1. A request whose path, joined with the root directory and normalised, lies outside
  the root must be answered with 403 \<open>Forbidden\<close> and must never return file content.
  The handler does not keep this. Its guard \<open>normalized.startsWith(ROOT)\<close> compares
  characters, not path segments: under the root \<open>/srv/app\<close> the request
  \<open>/../app-secret/key.txt\<close> resolves to \<open>/srv/app-secret/key.txt\<close>, a file in a sibling
  directory outside the root whose path begins with the characters of the root path. The
  guard lets it pass, and both versions of the handler stat the file and stream its
  content with status 200.
\<close>

theorem root_guard_misses_sibling_directory:
  "path_normalize (path_join [example_root, relPath_of (pathname_of (Some ''/../app-secret/key.txt''))])
     = ''/srv/app-secret/key.txt''
   \<and> \<not> inside_root example_root ''/srv/app-secret/key.txt''
   \<and> startsWith ''/srv/app-secret/key.txt'' example_root
   \<and> handler example_root empty_cache secret_sibling_files 0
        \<lparr>http_method = ''GET'', url = Some ''/../app-secret/key.txt''\<rparr>
     = (\<lparr>statusCode = 200, headers = [(''Content-Type'', ''application/octet-stream'')],
         body = ''s3cret''\<rparr>,
        [Stat ''/srv/app-secret/key.txt'', CreateReadStream ''/srv/app-secret/key.txt''])
   \<and> handler_single example_root empty_cache secret_sibling_files 0
        \<lparr>http_method = ''GET'', url = Some ''/../app-secret/key.txt''\<rparr>
     = (\<lparr>statusCode = 200, headers = [(''Content-Type'', ''application/octet-stream'')],
         body = ''s3cret''\<rparr>,
        [Stat ''/srv/app-secret/key.txt'', CreateReadStream ''/srv/app-secret/key.txt''])"
proof -
  have n: "path_normalize (path_join [example_root, relPath_of (pathname_of (Some ''/../app-secret/key.txt''))])
     = ''/srv/app-secret/key.txt''"
    by code_simp
  have o: "\<not> inside_root example_root ''/srv/app-secret/key.txt''"
    by code_simp
  have w: "startsWith ''/srv/app-secret/key.txt'' example_root"
    by code_simp
  have h: "handler example_root empty_cache secret_sibling_files 0
        \<lparr>http_method = ''GET'', url = Some ''/../app-secret/key.txt''\<rparr>
     = (\<lparr>statusCode = 200, headers = [(''Content-Type'', ''application/octet-stream'')],
         body = ''s3cret''\<rparr>,
        [Stat ''/srv/app-secret/key.txt'', CreateReadStream ''/srv/app-secret/key.txt''])"
    by (simp add: handler_def pathname_of_literal resolver_eval path_eval example_root_def
        secret_sibling_files_def)
  have g: "handler_single example_root empty_cache secret_sibling_files 0
        \<lparr>http_method = ''GET'', url = Some ''/../app-secret/key.txt''\<rparr>
     = (\<lparr>statusCode = 200, headers = [(''Content-Type'', ''application/octet-stream'')],
         body = ''s3cret''\<rparr>,
        [Stat ''/srv/app-secret/key.txt'', CreateReadStream ''/srv/app-secret/key.txt''])"
    by (simp add: handler_single_def pathname_of_literal staticResolver_single_in_order
        relPath_of_def startsWith_def escapes_root_def is_file_def file_content_def
        serve_file_def not_found_def forbidden_def mime_of_def MIME_def path_extname_def
        basename_part_def or_default_def path_eval example_root_def secret_sibling_files_def)
  show ?thesis
    by (simp only: n o w h g simp_thms)
qed

text \<open>
  C8. When the root directory holds a regular file \<open>index.html\<close>, the requests \<open>/\<close>
  and \<open>/index.html\<close>, and likewise the empty and the missing target, map to the same
  primary candidate \<open>index.html\<close> and get the same outcome: status 200, content type
  \<open>text/html\<close>, and the content of that file as body.
\<close>

theorem root_and_index_same_response:
  assumes "is_root_dir ROOT"
    and "fs (path_join [ROOT, ''index.html'']) = Some (RegularFile content)"
  shows "handler ROOT c fs now \<lparr>http_method = m1, url = Some ''/''\<rparr> =
           (\<lparr>statusCode = 200, headers = [(''Content-Type'', ''text/html'')], body = content\<rparr>,
            [Stat (path_join [ROOT, ''index.html'']),
             CreateReadStream (path_join [ROOT, ''index.html''])])
         \<and> handler ROOT c fs now \<lparr>http_method = m2, url = Some ''/index.html''\<rparr> =
             handler ROOT c fs now \<lparr>http_method = m1, url = Some ''/''\<rparr>
         \<and> handler ROOT c fs now \<lparr>http_method = m3, url = Some []\<rparr> =
             handler ROOT c fs now \<lparr>http_method = m1, url = Some ''/''\<rparr>
         \<and> handler ROOT c fs now \<lparr>http_method = m4, url = None\<rparr> =
             handler ROOT c fs now \<lparr>http_method = m1, url = Some ''/''\<rparr>
         \<and> relPath_of ''/'' = ''index.html''
         \<and> relPath_of ''/index.html'' = ''index.html''
         \<and> relPath_of [] = ''index.html''"
proof -
  have seg: "plain_segment ''index.html''"
    by (simp add: plain_segment_def)
  have rel: "relPath_of ''/'' = ''index.html''" "relPath_of ''/index.html'' = ''index.html''"
      "relPath_of [] = ''index.html''"
    by (simp_all add: relPath_of_def)
  have cands: "relCandidates_of ''index.html'' = [''index.html'']"
    by (simp add: relCandidates_of_def startsWith_def vsPrefix_def)
  have inside: "\<not> escapes_root ROOT ''index.html''"
    using assms(1) seg by (rule under_root_not_escaping)
  have isf: "is_file fs (path_join [ROOT, ''index.html''])"
    and cont: "file_content fs (path_join [ROOT, ''index.html'']) = content"
    using assms(2) by (simp_all add: is_file_def file_content_def)
  have ext: "path_extname (path_join [ROOT, ''index.html'']) = ''.html''"
  proof (cases "ROOT = ''/''")
    case True
    then show ?thesis
      using path_join_under_root [OF assms(1) seg] extname_index_html [of "[]"] by simp
  next
    case False
    then show ?thesis
      using path_join_under_root [OF assms(1) seg] extname_index_html [of ROOT] by simp
  qed
  have mime: "mime_of ''.html'' = ''text/html''"
    by (simp add: mime_of_def MIME_def or_default_def)
  have res: "staticResolver ROOT fs pathname =
           (\<lparr>statusCode = 200, headers = [(''Content-Type'', ''text/html'')], body = content\<rparr>,
            [Stat (path_join [ROOT, ''index.html'']),
             CreateReadStream (path_join [ROOT, ''index.html''])])"
    if "relPath_of pathname = ''index.html''" for pathname
    using that inside isf
    by (simp add: staticResolver_in_order cands serve_file_def ext mime cont)
  have p: "pathname_of (Some ''/'') = ''/''" "pathname_of (Some ''/index.html'') = ''/index.html''"
      "pathname_of (Some []) = ''/''" "pathname_of None = ''/''"
    by (simp_all add: pathname_of_def or_default_def split_first_def)
  have h: "handler ROOT c fs now \<lparr>http_method = m, url = u\<rparr> =
           (\<lparr>statusCode = 200, headers = [(''Content-Type'', ''text/html'')], body = content\<rparr>,
            [Stat (path_join [ROOT, ''index.html'']),
             CreateReadStream (path_join [ROOT, ''index.html''])])"
    if "pathname_of u = ''/'' \<or> pathname_of u = ''/index.html''" for m u
    using that by (auto simp: handler_def Let_def res rel)
  show ?thesis
    by (simp add: h p rel)
qed

theorem root_and_index_same_response_witness:
  "is_root_dir example_root
   \<and> site_files (path_join [example_root, ''index.html'']) = Some (RegularFile ''<html>cosmic</html>'')
   \<and> handler example_root empty_cache site_files 0 \<lparr>http_method = ''GET'', url = Some ''/''\<rparr> =
       (\<lparr>statusCode = 200, headers = [(''Content-Type'', ''text/html'')],
         body = ''<html>cosmic</html>''\<rparr>,
        [Stat ''/srv/app/index.html'', CreateReadStream ''/srv/app/index.html''])
   \<and> handler example_root empty_cache site_files 0 \<lparr>http_method = ''GET'', url = Some ''/index.html''\<rparr> =
       handler example_root empty_cache site_files 0 \<lparr>http_method = ''GET'', url = Some ''/''\<rparr>"
proof -
  have r: "is_root_dir example_root"
    by (simp add: is_root_dir_def example_root_def path_eval)
  have j: "path_join [example_root, ''index.html''] = ''/srv/app/index.html''"
    by (simp add: example_root_def path_eval)
  have f: "site_files (path_join [example_root, ''index.html'']) = Some (RegularFile ''<html>cosmic</html>'')"
    by (simp add: j site_files_def)
  show ?thesis
    using r f root_and_index_same_response
      [where ROOT = example_root and fs = site_files and content = "''<html>cosmic</html>''"
         and c = empty_cache and now = 0 and ?m1.0 = "''GET''" and ?m2.0 = "''GET''", OF r f]
    by (simp add: j)
qed

text \<open>
  C4, as stated, fails in two ways. For a tail that starts with \<open>game/\<close> the third
  candidate is built from the tail without that leading segment, so it is
  \<open>desktop/game/x.json\<close> and not \<open>desktop/game/game/x.json\<close>. And a candidate that
  fails the root check ends the search with 403 even when a later candidate names an
  existing regular file.
\<close>

theorem asset_candidates_counterexample:
  "relCandidates_of (vsPrefix @ ''game/x.json'') =
     [vsPrefix @ ''game/x.json'', vsPrefix @ ''desktop/game/x.json'',
      vsPrefix @ ''desktop/game/x.json'']
   \<and> claimed_candidates (vsPrefix @ ''game/x.json'') =
     [vsPrefix @ ''game/x.json'', vsPrefix @ ''desktop/game/x.json'',
      vsPrefix @ ''desktop/game/game/x.json'']
   \<and> relCandidates_of (vsPrefix @ ''game/x.json'') \<noteq> claimed_candidates (vsPrefix @ ''game/x.json'')
   \<and> claimed_candidates (relPath_of (CHR ''/'' # vsPrefix @ ''../../../../../../../../../etc/hosts'')) =
     [vsPrefix @ ''../../../../../../../../../etc/hosts'',
      vsPrefix @ ''desktop/../../../../../../../../../etc/hosts'',
      vsPrefix @ ''desktop/game/../../../../../../../../../etc/hosts'']
   \<and> path_join [example_root, vsPrefix @ ''../../../../../../../../../etc/hosts''] = ''/srv/etc/hosts''
   \<and> path_join [example_root, vsPrefix @ ''desktop/../../../../../../../../../etc/hosts'']
       = ''/srv/app/etc/hosts''
   \<and> \<not> is_file hosts_files ''/srv/etc/hosts''
   \<and> is_file hosts_files ''/srv/app/etc/hosts''
   \<and> staticResolver example_root hosts_files
        (CHR ''/'' # vsPrefix @ ''../../../../../../../../../etc/hosts'')
       = (\<lparr>statusCode = 403, headers = [], body = ''Forbidden''\<rparr>, [])"
proof -
  have a: "relCandidates_of (vsPrefix @ ''game/x.json'') =
     [vsPrefix @ ''game/x.json'', vsPrefix @ ''desktop/game/x.json'',
      vsPrefix @ ''desktop/game/x.json'']"
    by (simp add: relCandidates_of_def startsWith_def Let_def)
  have b: "claimed_candidates (vsPrefix @ ''game/x.json'') =
     [vsPrefix @ ''game/x.json'', vsPrefix @ ''desktop/game/x.json'',
      vsPrefix @ ''desktop/game/game/x.json'']"
    by (simp add: claimed_candidates_def startsWith_def Let_def)
  have r: "relPath_of (CHR ''/'' # vsPrefix @ ''../../../../../../../../../etc/hosts'')
             = vsPrefix @ ''../../../../../../../../../etc/hosts''"
    by (simp add: relPath_of_def startsWith_def vsPrefix_def)
  have c: "claimed_candidates (vsPrefix @ ''../../../../../../../../../etc/hosts'') =
     [vsPrefix @ ''../../../../../../../../../etc/hosts'',
      vsPrefix @ ''desktop/../../../../../../../../../etc/hosts'',
      vsPrefix @ ''desktop/game/../../../../../../../../../etc/hosts'']"
    by (simp add: claimed_candidates_def startsWith_def Let_def)
  have j1: "path_join [example_root, vsPrefix @ ''../../../../../../../../../etc/hosts''] = ''/srv/etc/hosts''"
    by code_simp
  have j2: "path_join [example_root, vsPrefix @ ''desktop/../../../../../../../../../etc/hosts'']
       = ''/srv/app/etc/hosts''"
    by code_simp
  have f: "\<not> is_file hosts_files ''/srv/etc/hosts''" "is_file hosts_files ''/srv/app/etc/hosts''"
    by (simp_all add: is_file_def hosts_files_def)
  have e: "escapes_root example_root (vsPrefix @ ''../../../../../../../../../etc/hosts'')"
    by code_simp
  have s: "staticResolver example_root hosts_files
        (CHR ''/'' # vsPrefix @ ''../../../../../../../../../etc/hosts'')
       = (\<lparr>statusCode = 403, headers = [], body = ''Forbidden''\<rparr>, [])"
    using e by (simp add: staticResolver_escape r forbidden_def)
  show ?thesis
    by (simp only: a b r c j1 j2 f s simp_thms) simp
qed

text \<open>
  C4, amended. For every request path whose relative path begins with the fixed
  vs40cosmiccash asset prefix, the candidate list is: the primary path; then, if the
  tail after the prefix does not start with \<open>desktop/\<close>, the prefix plus \<open>desktop/\<close>
  plus the unchanged tail; then, if the tail does not start with \<open>desktop/game/\<close>, the
  prefix plus \<open>desktop/game/\<close> plus the tail without a leading \<open>game/\<close>. The
  candidates are tried in exactly this order: the first one that either fails the root
  check or names a regular file decides, with 403 in the first case and that file served
  in the second; when there is none the answer is 404.
\<close>

theorem asset_candidates_in_order:
  assumes "startsWith (relPath_of pathname) vsPrefix"
  shows "relCandidates_of (relPath_of pathname) =
           (let tail = drop (length vsPrefix) (relPath_of pathname)
            in relPath_of pathname
               # (if startsWith tail ''desktop/'' then [] else [vsPrefix @ ''desktop/'' @ tail])
               @ (if startsWith tail ''desktop/game/'' then []
                  else [vsPrefix @ ''desktop/game/''
                          @ (if startsWith tail ''game/'' then drop 5 tail else tail)]))
         \<and> fst (staticResolver ROOT fs pathname) =
           (case find (\<lambda>rel. escapes_root ROOT rel \<or> is_file fs (path_join [ROOT, rel]))
                   (relCandidates_of (relPath_of pathname)) of
              None \<Rightarrow> \<lparr>statusCode = 404, headers = [], body = ''Not Found: '' @ pathname\<rparr>
            | Some rel \<Rightarrow>
                if escapes_root ROOT rel
                then \<lparr>statusCode = 403, headers = [], body = ''Forbidden''\<rparr>
                else \<lparr>statusCode = 200,
                      headers = [(''Content-Type'', mime_of (path_extname (path_join [ROOT, rel])))],
                      body = file_content fs (path_join [ROOT, rel])\<rparr>)"
proof -
  have l: "relCandidates_of (relPath_of pathname) =
           (let tail = drop (length vsPrefix) (relPath_of pathname)
            in relPath_of pathname
               # (if startsWith tail ''desktop/'' then [] else [vsPrefix @ ''desktop/'' @ tail])
               @ (if startsWith tail ''desktop/game/'' then []
                  else [vsPrefix @ ''desktop/game/''
                          @ (if startsWith tail ''game/'' then drop 5 tail else tail)]))"
    using assms by (simp add: relCandidates_of_def Let_def eval_nat_numeral)
  have r: "fst (staticResolver ROOT fs pathname) =
           (case find (\<lambda>rel. escapes_root ROOT rel \<or> is_file fs (path_join [ROOT, rel]))
                   (relCandidates_of (relPath_of pathname)) of
              None \<Rightarrow> not_found pathname
            | Some rel \<Rightarrow>
                if escapes_root ROOT rel then forbidden else serve_file fs (path_join [ROOT, rel]))"
    by (simp only: staticResolver_in_order try_in_order_find)
  show ?thesis
    using l r by (simp only: not_found_def forbidden_def serve_file_def simp_thms)
qed

theorem asset_candidates_in_order_witness:
  "startsWith (relPath_of (CHR ''/'' # vsPrefix @ ''game/x.json'')) vsPrefix
   \<and> relCandidates_of (relPath_of (CHR ''/'' # vsPrefix @ ''game/x.json'')) =
       [vsPrefix @ ''game/x.json'', vsPrefix @ ''desktop/game/x.json'',
        vsPrefix @ ''desktop/game/x.json'']
   \<and> fst (staticResolver example_root asset_files (CHR ''/'' # vsPrefix @ ''game/x.json'')) =
       \<lparr>statusCode = 200, headers = [(''Content-Type'', ''application/json'')], body = ''{}''\<rparr>"
proof -
  have r: "relPath_of (CHR ''/'' # vsPrefix @ ''game/x.json'') = vsPrefix @ ''game/x.json''"
    by (simp add: relPath_of_def startsWith_def vsPrefix_def)
  have h: "startsWith (relPath_of (CHR ''/'' # vsPrefix @ ''game/x.json'')) vsPrefix"
    by (simp add: r startsWith_def)
  have res: "fst (staticResolver example_root asset_files (CHR ''/'' # vsPrefix @ ''game/x.json'')) =
       \<lparr>statusCode = 200, headers = [(''Content-Type'', ''application/json'')], body = ''{}''\<rparr>"
    by code_simp
  have cs: "relCandidates_of (vsPrefix @ ''game/x.json'') =
       [vsPrefix @ ''game/x.json'', vsPrefix @ ''desktop/game/x.json'',
        vsPrefix @ ''desktop/game/x.json'']"
    by (simp add: relCandidates_of_def startsWith_def Let_def)
  show ?thesis
    using h asset_candidates_in_order [OF h, of example_root asset_files]
    by (simp only: r cs res simp_thms)
qed

end
